theory Spec2Isabelle
  imports Main
begin

section \<open>Strings as the routes use them\<close>

text \<open>
  JavaScript strings are modelled as \<open>string\<close> over ASCII. A request field that may be
  absent (\<open>undefined\<close>) is a \<open>string option\<close>; the JavaScript test \<open>!x\<close> on such a
  field holds for \<open>undefined\<close> and for the empty string.
\<close>

definition falsy :: "string option \<Rightarrow> bool" where
  "falsy x = (case x of None \<Rightarrow> True | Some s \<Rightarrow> s = [])"

text \<open>White space as \<open>String.prototype.trim\<close> and the regular expression \<open>\s\<close> see it
  (the ASCII part: tab, line feed, vertical tab, form feed, carriage return, space).\<close>

definition is_space :: "char \<Rightarrow> bool" where
  "is_space c = (c \<in> set [CHR 0x09, CHR 0x0A, CHR 0x0B, CHR 0x0C, CHR 0x0D, CHR '' ''])"

definition trim :: "string \<Rightarrow> string" where
  "trim s = rev (dropWhile is_space (rev (dropWhile is_space s)))"

definition lower_char :: "char \<Rightarrow> char" where
  "lower_char c =
     (let n = (of_char c :: nat) in if 65 \<le> n \<and> n \<le> 90 then char_of (n + 32) else c)"

definition toLowerCase :: "string \<Rightarrow> string" where
  "toLowerCase s = map lower_char s"

text \<open>\<open>s.replace(/\s+/g, '-')\<close>: every maximal run of white space becomes one dash.\<close>

fun replace_ws :: "string \<Rightarrow> string" where
  "replace_ws [] = []"
| "replace_ws [c] = (if is_space c then ''-'' else [c])"
| "replace_ws (c # d # cs) =
     (if is_space c
      then (if is_space d then replace_ws (d # cs) else CHR ''-'' # replace_ws (d # cs))
      else c # replace_ws (d # cs))"

definition digit36 :: "nat \<Rightarrow> char" where
  "digit36 d = (''0123456789abcdefghijklmnopqrstuvwxyz'' ! d)"

text \<open>\<open>Date.now().toString(36)\<close>; the clock reading is a parameter of every route that
  builds an identifier.\<close>

fun toString36 :: "nat \<Rightarrow> string" where
  "toString36 n =
     (if n < 36 then [digit36 n] else toString36 (n div 36) @ [digit36 (n mod 36)])"

declare toString36.simps [simp del]

text \<open>\<open>s.split(' ')\<close>.\<close>

fun split_on :: "char \<Rightarrow> string \<Rightarrow> string list" where
  "split_on c [] = [[]]"
| "split_on c (x # xs) =
     (if x = c then [] # split_on c xs
      else (case split_on c xs of [] \<Rightarrow> [[x]] | y # ys \<Rightarrow> (x # y) # ys))"

section \<open>Record store (backend/db/database.js)\<close>

text \<open>One record per table row; the \<open>created_at\<close> column (filled by the engine's clock and
  read by no route) is left out. A table is the list of its rows in insertion order.\<close>

record family_row =
  family_id :: string
  family_name :: string

record admin_row =
  admin_id :: string
  admin_family_id :: string
  admin_email :: string
  admin_password_hash :: string

record person_row =
  person_id :: string
  person_family_id :: string
  person_name :: string
  person_email :: string
  person_phone :: "string option"
  person_color :: string

record chore_row =
  chore_id :: string
  chore_family_id :: string
  chore_label :: string

record assignment_row =
  assignment_id :: string
  assignment_family_id :: string
  assignment_person_id :: string
  assignment_chore_id :: string
  assignment_week_start_iso :: string
  assignment_day_index :: int

record database =
  families :: "family_row list"
  admins :: "admin_row list"
  people :: "person_row list"
  chores :: "chore_row list"
  assignments :: "assignment_row list"

text \<open>The constraint failures better-sqlite3 raises, by their \<open>error.code\<close>.\<close>

datatype sqlite_error =
    SQLITE_CONSTRAINT_PRIMARYKEY
  | SQLITE_CONSTRAINT_UNIQUE
  | SQLITE_CONSTRAINT_FOREIGNKEY

definition family_exists :: "database \<Rightarrow> string \<Rightarrow> bool" where
  "family_exists db fid = (\<exists>f \<in> set (families db). family_id f = fid)"

text \<open>INSERT statements. Each checks the table's UNIQUE constraint, then its PRIMARY KEY
  (SQLite tests the index declared last first, so a row failing both is reported as
  \<open>SQLITE_CONSTRAINT_UNIQUE\<close>), then its FOREIGN KEYs (foreign keys are switched on in
  \<open>getDatabase\<close>), and appends the row when all hold.\<close>

definition insert_family :: "database \<Rightarrow> family_row \<Rightarrow> sqlite_error + database" where
  "insert_family db r =
     (if \<exists>f \<in> set (families db). family_id f = family_id r then Inl SQLITE_CONSTRAINT_PRIMARYKEY
      else Inr (db\<lparr>families := families db @ [r]\<rparr>))"

definition insert_admin :: "database \<Rightarrow> admin_row \<Rightarrow> sqlite_error + database" where
  "insert_admin db r =
     (if \<exists>a \<in> set (admins db).
           admin_family_id a = admin_family_id r \<and> admin_email a = admin_email r
        then Inl SQLITE_CONSTRAINT_UNIQUE
      else if \<exists>a \<in> set (admins db). admin_id a = admin_id r
        then Inl SQLITE_CONSTRAINT_PRIMARYKEY
      else if \<not> family_exists db (admin_family_id r) then Inl SQLITE_CONSTRAINT_FOREIGNKEY
      else Inr (db\<lparr>admins := admins db @ [r]\<rparr>))"

definition insert_person :: "database \<Rightarrow> person_row \<Rightarrow> sqlite_error + database" where
  "insert_person db r =
     (if \<exists>p \<in> set (people db).
           person_family_id p = person_family_id r \<and> person_email p = person_email r
        then Inl SQLITE_CONSTRAINT_UNIQUE
      else if \<exists>p \<in> set (people db). person_id p = person_id r
        then Inl SQLITE_CONSTRAINT_PRIMARYKEY
      else if \<not> family_exists db (person_family_id r) then Inl SQLITE_CONSTRAINT_FOREIGNKEY
      else Inr (db\<lparr>people := people db @ [r]\<rparr>))"

definition insert_chore :: "database \<Rightarrow> chore_row \<Rightarrow> sqlite_error + database" where
  "insert_chore db r =
     (if \<exists>c \<in> set (chores db). chore_id c = chore_id r then Inl SQLITE_CONSTRAINT_PRIMARYKEY
      else if \<not> family_exists db (chore_family_id r) then Inl SQLITE_CONSTRAINT_FOREIGNKEY
      else Inr (db\<lparr>chores := chores db @ [r]\<rparr>))"

text \<open>The composite key of the assignments table's UNIQUE constraint, which is also what
  the routes' "already exists" query selects on.\<close>

definition same_assignment ::
  "string \<Rightarrow> string \<Rightarrow> string \<Rightarrow> int \<Rightarrow> string \<Rightarrow> assignment_row \<Rightarrow> bool" where
  "same_assignment familyId personId weekStartISO dayIndex choreId a =
     (assignment_family_id a = familyId \<and> assignment_person_id a = personId \<and>
      assignment_week_start_iso a = weekStartISO \<and> assignment_day_index a = dayIndex \<and>
      assignment_chore_id a = choreId)"

definition insert_assignment :: "database \<Rightarrow> assignment_row \<Rightarrow> sqlite_error + database" where
  "insert_assignment db r =
     (if \<exists>a \<in> set (assignments db).
           same_assignment (assignment_family_id r) (assignment_person_id r)
             (assignment_week_start_iso r) (assignment_day_index r) (assignment_chore_id r) a
        then Inl SQLITE_CONSTRAINT_UNIQUE
      else if \<exists>a \<in> set (assignments db). assignment_id a = assignment_id r
        then Inl SQLITE_CONSTRAINT_PRIMARYKEY
      else if \<not> family_exists db (assignment_family_id r)
              \<or> \<not> (\<exists>p \<in> set (people db). person_id p = assignment_person_id r)
              \<or> \<not> (\<exists>c \<in> set (chores db). chore_id c = assignment_chore_id r)
        then Inl SQLITE_CONSTRAINT_FOREIGNKEY
      else Inr (db\<lparr>assignments := assignments db @ [r]\<rparr>))"

text \<open>UPDATE and DELETE statements. Deleting a person or a chore cascades to the
  assignments that reference it (\<open>ON DELETE CASCADE\<close>). An UPDATE of a person re-checks
  \<open>UNIQUE(family_id, email)\<close> against the other rows.\<close>

definition update_person_row ::
  "database \<Rightarrow> string \<Rightarrow> string \<Rightarrow> string \<Rightarrow> string option \<Rightarrow> string
     \<Rightarrow> sqlite_error + database" where
  "update_person_row db personId name email phone color =
     (case find (\<lambda>p. person_id p = personId) (people db) of
        None \<Rightarrow> Inr db
      | Some old \<Rightarrow>
          if \<exists>q \<in> set (people db). person_id q \<noteq> personId \<and>
               person_family_id q = person_family_id old \<and> person_email q = email
          then Inl SQLITE_CONSTRAINT_UNIQUE
          else Inr (db\<lparr>people :=
                 map (\<lambda>q. if person_id q = personId
                           then q\<lparr>person_name := name, person_email := email,
                                  person_phone := phone, person_color := color\<rparr>
                           else q) (people db)\<rparr>))"

definition update_chore_row :: "database \<Rightarrow> string \<Rightarrow> string \<Rightarrow> database" where
  "update_chore_row db choreId label =
     db\<lparr>chores := map (\<lambda>c. if chore_id c = choreId then c\<lparr>chore_label := label\<rparr> else c)
                       (chores db)\<rparr>"

definition delete_person_row :: "database \<Rightarrow> string \<Rightarrow> database" where
  "delete_person_row db personId =
     db\<lparr>people := filter (\<lambda>p. person_id p \<noteq> personId) (people db),
        assignments := filter (\<lambda>a. assignment_person_id a \<noteq> personId) (assignments db)\<rparr>"

definition delete_chore_row :: "database \<Rightarrow> string \<Rightarrow> database" where
  "delete_chore_row db choreId =
     db\<lparr>chores := filter (\<lambda>c. chore_id c \<noteq> choreId) (chores db),
        assignments := filter (\<lambda>a. assignment_chore_id a \<noteq> choreId) (assignments db)\<rparr>"

definition delete_assignment_row :: "database \<Rightarrow> string \<Rightarrow> database" where
  "delete_assignment_row db assignmentId =
     db\<lparr>assignments := filter (\<lambda>a. assignment_id a \<noteq> assignmentId) (assignments db)\<rparr>"

definition delete_admin_row :: "database \<Rightarrow> string \<Rightarrow> string \<Rightarrow> database" where
  "delete_admin_row db adminId familyId =
     db\<lparr>admins := filter (\<lambda>a. \<not> (admin_id a = adminId \<and> admin_family_id a = familyId))
                       (admins db)\<rparr>"

section \<open>Principals and responses\<close>

text \<open>The payload of a session token, as \<open>generateToken\<close> is called in the login and
  create-family routes: \<open>{adminId, familyId, type: 'admin'}\<close> or
  \<open>{personId, familyId, type: 'user'}\<close>. It is what \<open>req.user\<close> holds in a route.\<close>

record token_claims =
  user_adminId :: "string option"
  user_personId :: "string option"
  user_familyId :: string
  user_type :: string

text \<open>A JSON response body. \<open>JUndefined\<close> is what \<open>res.json\<close> receives when a SELECT
  found no row. In \<open>JFamilyCreated\<close> the claims stand for the token signed from them.\<close>

datatype json =
    JError string
  | JMessage string
  | JUndefined
  | JChore chore_row
  | JChores "chore_row list"
  | JPerson person_row
  | JPeople "person_row list"
  | JAssignment assignment_row
  | JAssignments "assignment_row list"
  | JAssignmentsCreated "assignment_row option list"
  | JFamilyCreated token_claims string string
  | JAdminCreated string string string
  | JFamily family_row "(string \<times> string) list" "person_row list" "chore_row list"
      "assignment_row list"

type_synonym response = "nat \<times> json"

definition json_chore :: "chore_row option \<Rightarrow> json" where
  "json_chore r = (case r of None \<Rightarrow> JUndefined | Some c \<Rightarrow> JChore c)"

definition json_person :: "person_row option \<Rightarrow> json" where
  "json_person r = (case r of None \<Rightarrow> JUndefined | Some p \<Rightarrow> JPerson p)"

definition json_assignment :: "assignment_row option \<Rightarrow> json" where
  "json_assignment r = (case r of None \<Rightarrow> JUndefined | Some a \<Rightarrow> JAssignment a)"

section \<open>Token middleware (backend/middleware/auth.js)\<close>

text \<open>\<open>jwt.verify\<close> belongs to the jsonwebtoken library: it is a parameter, giving for a
  token string either the error it reports or the decoded payload.\<close>

datatype jwt_error = JsonWebTokenError | TokenExpiredError

datatype auth_result = Rejected response | Next token_claims

text \<open>\<open>authHeader && authHeader.split(' ')[1]\<close>: \<open>None\<close> when the result is falsy.\<close>

definition bearer_token :: "string option \<Rightarrow> string option" where
  "bearer_token authHeader =
     (case authHeader of
        None \<Rightarrow> None
      | Some h \<Rightarrow>
          if h = [] then None
          else (case split_on CHR '' '' h of
                  _ # t # _ \<Rightarrow> if t = [] then None else Some t
                | _ \<Rightarrow> None))"

definition authenticateToken ::
  "(string \<Rightarrow> jwt_error + token_claims) \<Rightarrow> string option \<Rightarrow> auth_result" where
  "authenticateToken jwt_verify authHeader =
     (case bearer_token authHeader of
        None \<Rightarrow> Rejected (401, JError ''Access token required'')
      | Some token \<Rightarrow>
          (case jwt_verify token of
             Inl err \<Rightarrow> Rejected (403, JError ''Invalid or expired token'')
           | Inr user \<Rightarrow> Next user))"

text \<open>Two verifiers for concrete runs: one that finds every token expired, one that finds
  every token malformed.\<close>

definition verify_expired :: "string \<Rightarrow> jwt_error + token_claims" where
  "verify_expired token = Inl TokenExpiredError"

definition verify_invalid :: "string \<Rightarrow> jwt_error + token_claims" where
  "verify_invalid token = Inl JsonWebTokenError"

definition rejected_status :: "auth_result \<Rightarrow> nat option" where
  "rejected_status r = (case r of Rejected resp \<Rightarrow> Some (fst resp) | Next user \<Rightarrow> None)"

section \<open>Chore routes (backend/routes/chores.js)\<close>

text \<open>Every route takes the store, \<open>req.user\<close>, the path parameters, the body fields and
  (where an identifier is built) the clock reading; it returns the response and the store
  afterwards. An exception caught by the route's \<open>catch\<close> is its 500 branch.\<close>

definition get_chores :: "database \<Rightarrow> token_claims \<Rightarrow> string \<Rightarrow> response \<times> database" where
  "get_chores db user familyId =
     (if user_familyId user \<noteq> familyId then ((403, JError ''Access denied''), db)
      else ((200, JChores (filter (\<lambda>c. chore_family_id c = familyId) (chores db))), db))"

definition add_chore ::
  "database \<Rightarrow> token_claims \<Rightarrow> string \<Rightarrow> string option \<Rightarrow> nat \<Rightarrow> response \<times> database" where
  "add_chore db user familyId label now =
     (if user_type user \<noteq> ''admin'' \<or> user_familyId user \<noteq> familyId
        then ((403, JError ''Admin access required''), db)
      else case label of
        None \<Rightarrow> ((400, JError ''Chore label required''), db)
      | Some l \<Rightarrow>
          if l = [] \<or> trim l = [] then ((400, JError ''Chore label required''), db)
          else
            let trimmedLabel = trim l;
                existing = find (\<lambda>c. chore_family_id c = familyId \<and>
                                      toLowerCase (chore_label c) = toLowerCase trimmedLabel)
                             (chores db)
            in if existing \<noteq> None
                 then ((409, JError ''Chore with this label already exists''), db)
               else
                 let choreId = replace_ws (toLowerCase trimmedLabel) @ ''-'' @ toString36 now
                 in case insert_chore db
                           \<lparr>chore_id = choreId, chore_family_id = familyId,
                            chore_label = trimmedLabel\<rparr> of
                      Inl err \<Rightarrow> ((500, JError ''Internal server error''), db)
                    | Inr db' \<Rightarrow>
                        ((201, json_chore (find (\<lambda>c. chore_id c = choreId) (chores db'))), db'))"

definition update_chore ::
  "database \<Rightarrow> token_claims \<Rightarrow> string \<Rightarrow> string option \<Rightarrow> response \<times> database" where
  "update_chore db user choreId label =
     (case find (\<lambda>c. chore_id c = choreId) (chores db) of
        None \<Rightarrow> ((404, JError ''Chore not found''), db)
      | Some chore \<Rightarrow>
          if user_type user \<noteq> ''admin'' \<or> user_familyId user \<noteq> chore_family_id chore
            then ((403, JError ''Admin access required''), db)
          else case label of
            None \<Rightarrow> ((400, JError ''Chore label required''), db)
          | Some l \<Rightarrow>
              if l = [] \<or> trim l = [] then ((400, JError ''Chore label required''), db)
              else
                let trimmedLabel = trim l;
                    existing = find (\<lambda>c. chore_family_id c = chore_family_id chore \<and>
                                          toLowerCase (chore_label c) = toLowerCase trimmedLabel \<and>
                                          chore_id c \<noteq> choreId)
                                 (chores db)
                in if existing \<noteq> None
                     then ((409, JError ''Chore with this label already exists''), db)
                   else
                     let db' = update_chore_row db choreId trimmedLabel
                     in ((200, json_chore (find (\<lambda>c. chore_id c = choreId) (chores db'))), db'))"

definition delete_chore :: "database \<Rightarrow> token_claims \<Rightarrow> string \<Rightarrow> response \<times> database" where
  "delete_chore db user choreId =
     (case find (\<lambda>c. chore_id c = choreId) (chores db) of
        None \<Rightarrow> ((404, JError ''Chore not found''), db)
      | Some chore \<Rightarrow>
          if user_type user \<noteq> ''admin'' \<or> user_familyId user \<noteq> chore_family_id chore
            then ((403, JError ''Admin access required''), db)
          else ((200, JMessage ''Chore deleted successfully''), delete_chore_row db choreId))"

section \<open>People routes (backend/routes/people.js)\<close>

definition getDefaultColorForIndex :: "nat \<Rightarrow> string" where
  "getDefaultColorForIndex index =
     (let palette = [''#f97373'', ''#f97316'', ''#eab308'', ''#22c55e'', ''#0ea5e9'', ''#a855f7'']
      in palette ! (index mod length palette))"

text \<open>\<open>x || null\<close> on an optional string.\<close>

definition or_null :: "string option \<Rightarrow> string option" where
  "or_null x = (if falsy x then None else x)"

definition get_people :: "database \<Rightarrow> token_claims \<Rightarrow> string \<Rightarrow> response \<times> database" where
  "get_people db user familyId =
     (if user_familyId user \<noteq> familyId then ((403, JError ''Access denied''), db)
      else ((200, JPeople (filter (\<lambda>p. person_family_id p = familyId) (people db))), db))"

definition add_person ::
  "database \<Rightarrow> token_claims \<Rightarrow> string \<Rightarrow> string option \<Rightarrow> string option \<Rightarrow> string option \<Rightarrow> nat
     \<Rightarrow> response \<times> database" where
  "add_person db user familyId name email phone now =
     (if user_type user \<noteq> ''admin'' \<or> user_familyId user \<noteq> familyId
        then ((403, JError ''Admin access required''), db)
      else if falsy name \<or> falsy email then ((400, JError ''Name and email required''), db)
      else case (name, email) of
        (Some n, Some e) \<Rightarrow>
          let personCount = length (filter (\<lambda>p. person_family_id p = familyId) (people db));
              color = getDefaultColorForIndex personCount;
              personId = replace_ws (toLowerCase n) @ ''-'' @ toString36 now
          in (case insert_person db
                     \<lparr>person_id = personId, person_family_id = familyId, person_name = n,
                      person_email = e, person_phone = or_null phone, person_color = color\<rparr> of
                Inl err \<Rightarrow>
                  if err = SQLITE_CONSTRAINT_UNIQUE
                    then ((409, JError ''Person with this email already exists''), db)
                  else ((500, JError ''Internal server error''), db)
              | Inr db' \<Rightarrow>
                  ((201, json_person (find (\<lambda>p. person_id p = personId) (people db'))), db'))
      | _ \<Rightarrow> ((400, JError ''Name and email required''), db))"

definition update_person ::
  "database \<Rightarrow> token_claims \<Rightarrow> string \<Rightarrow> string option \<Rightarrow> string option \<Rightarrow> string option
     \<Rightarrow> string option \<Rightarrow> response \<times> database" where
  "update_person db user personId name email phone color =
     (case find (\<lambda>p. person_id p = personId) (people db) of
        None \<Rightarrow> ((404, JError ''Person not found''), db)
      | Some person \<Rightarrow>
          if user_type user \<noteq> ''admin'' \<or> user_familyId user \<noteq> person_family_id person
            then ((403, JError ''Admin access required''), db)
          else if falsy name \<or> falsy email then ((400, JError ''Name and email required''), db)
          else case (name, email) of
            (Some n, Some e) \<Rightarrow>
              (case update_person_row db personId n e (or_null phone)
                      (case or_null color of None \<Rightarrow> person_color person | Some c \<Rightarrow> c) of
                 Inl err \<Rightarrow>
                   if err = SQLITE_CONSTRAINT_UNIQUE
                     then ((409, JError ''Person with this email already exists''), db)
                   else ((500, JError ''Internal server error''), db)
               | Inr db' \<Rightarrow>
                   ((200, json_person (find (\<lambda>p. person_id p = personId) (people db'))), db'))
          | _ \<Rightarrow> ((400, JError ''Name and email required''), db))"

definition delete_person :: "database \<Rightarrow> token_claims \<Rightarrow> string \<Rightarrow> response \<times> database" where
  "delete_person db user personId =
     (case find (\<lambda>p. person_id p = personId) (people db) of
        None \<Rightarrow> ((404, JError ''Person not found''), db)
      | Some person \<Rightarrow>
          if user_type user \<noteq> ''admin'' \<or> user_familyId user \<noteq> person_family_id person
            then ((403, JError ''Admin access required''), db)
          else ((200, JMessage ''Person deleted successfully''), delete_person_row db personId))"

section \<open>Assignment routes (backend/routes/assignments.js)\<close>

text \<open>A number inside a template literal: decimal digits, with a minus sign when negative.
  The day index of a request body is an optional integer.\<close>

fun toString10 :: "nat \<Rightarrow> string" where
  "toString10 n =
     (if n < 10 then [digit36 n] else toString10 (n div 10) @ [digit36 (n mod 10)])"

declare toString10.simps [simp del]

definition int_toString :: "int \<Rightarrow> string" where
  "int_toString i = (if i < 0 then ''-'' @ toString10 (nat (- i)) else toString10 (nat i))"

definition get_assignments ::
  "database \<Rightarrow> token_claims \<Rightarrow> string \<Rightarrow> string \<Rightarrow> response \<times> database" where
  "get_assignments db user familyId weekStartISO =
     (if user_familyId user \<noteq> familyId then ((403, JError ''Access denied''), db)
      else ((200, JAssignments
               (filter (\<lambda>a. assignment_family_id a = familyId \<and>
                             assignment_week_start_iso a = weekStartISO) (assignments db))), db))"

definition add_assignment ::
  "database \<Rightarrow> token_claims \<Rightarrow> string \<Rightarrow> string option \<Rightarrow> string option \<Rightarrow> string option
     \<Rightarrow> int option \<Rightarrow> nat \<Rightarrow> response \<times> database" where
  "add_assignment db user familyId personId choreId weekStartISO dayIndex now =
     (if user_type user \<noteq> ''admin'' \<or> user_familyId user \<noteq> familyId
        then ((403, JError ''Admin access required''), db)
      else if falsy personId \<or> falsy choreId \<or> falsy weekStartISO \<or> dayIndex = None
        then ((400, JError ''personId, choreId, weekStartISO, and dayIndex required''), db)
      else case (personId, choreId, weekStartISO, dayIndex) of
        (Some pid, Some cid, Some week, Some di) \<Rightarrow>
          let person = find (\<lambda>p. person_id p = pid \<and> person_family_id p = familyId) (people db);
              chore = find (\<lambda>c. chore_id c = cid \<and> chore_family_id c = familyId) (chores db)
          in if person = None then ((404, JError ''Person not found''), db)
             else if chore = None then ((404, JError ''Chore not found''), db)
             else if find (same_assignment familyId pid week di cid) (assignments db) \<noteq> None
               then ((409, JError ''Assignment already exists''), db)
             else
               let assignmentId = pid @ ''-'' @ week @ ''-'' @ int_toString di @ ''-'' @ cid
                                    @ ''-'' @ toString36 now
               in (case insert_assignment db
                          \<lparr>assignment_id = assignmentId, assignment_family_id = familyId,
                           assignment_person_id = pid, assignment_chore_id = cid,
                           assignment_week_start_iso = week, assignment_day_index = di\<rparr> of
                     Inl err \<Rightarrow>
                       if err = SQLITE_CONSTRAINT_UNIQUE
                         then ((409, JError ''Assignment already exists''), db)
                       else ((500, JError ''Internal server error''), db)
                   | Inr db' \<Rightarrow>
                       ((201, json_assignment
                                (find (\<lambda>a. assignment_id a = assignmentId) (assignments db'))),
                        db'))
      | _ \<Rightarrow> ((400, JError ''personId, choreId, weekStartISO, and dayIndex required''), db))"

definition delete_assignment ::
  "database \<Rightarrow> token_claims \<Rightarrow> string \<Rightarrow> response \<times> database" where
  "delete_assignment db user assignmentId =
     (case find (\<lambda>a. assignment_id a = assignmentId) (assignments db) of
        None \<Rightarrow> ((404, JError ''Assignment not found''), db)
      | Some assignment \<Rightarrow>
          if user_type user \<noteq> ''admin'' \<or> user_familyId user \<noteq> assignment_family_id assignment
            then ((403, JError ''Admin access required''), db)
          else ((200, JMessage ''Assignment deleted successfully''),
                delete_assignment_row db assignmentId))"

text \<open>The \<open>for\<close> loop of the whole-week route, from \<open>dayIndex\<close> up to 6. The clock is read
  anew in every round (\<open>clock dayIndex\<close>). The route opens no transaction, so when an
  INSERT throws, the rows of the earlier rounds stay: the loop returns the store it reached
  together with the error.\<close>

function week_loop ::
  "database \<Rightarrow> string \<Rightarrow> string \<Rightarrow> string \<Rightarrow> string \<Rightarrow> (nat \<Rightarrow> nat) \<Rightarrow> nat
     \<Rightarrow> assignment_row option list
     \<Rightarrow> (sqlite_error + assignment_row option list) \<times> database" where
  "week_loop db familyId pid cid week clock dayIndex created =
     (if dayIndex < 7 then
        (if find (same_assignment familyId pid week (int dayIndex) cid) (assignments db) = None
         then
           let assignmentId = pid @ ''-'' @ week @ ''-'' @ int_toString (int dayIndex) @ ''-'' @ cid
                                @ ''-'' @ toString36 (clock dayIndex) @ ''-''
                                @ int_toString (int dayIndex)
           in (case insert_assignment db
                      \<lparr>assignment_id = assignmentId, assignment_family_id = familyId,
                       assignment_person_id = pid, assignment_chore_id = cid,
                       assignment_week_start_iso = week, assignment_day_index = int dayIndex\<rparr> of
                 Inl err \<Rightarrow> (Inl err, db)
               | Inr db' \<Rightarrow>
                   week_loop db' familyId pid cid week clock (Suc dayIndex)
                     (created @ [find (\<lambda>a. assignment_id a = assignmentId) (assignments db')]))
         else week_loop db familyId pid cid week clock (Suc dayIndex) created)
      else (Inr created, db))"
  by pat_completeness auto
termination
  by (relation "measure (\<lambda>(db, familyId, pid, cid, week, clock, dayIndex, created). 7 - dayIndex)")
     auto

declare week_loop.simps [simp del]

definition add_week_assignments ::
  "database \<Rightarrow> token_claims \<Rightarrow> string \<Rightarrow> string option \<Rightarrow> string option \<Rightarrow> string option
     \<Rightarrow> (nat \<Rightarrow> nat) \<Rightarrow> response \<times> database" where
  "add_week_assignments db user familyId personId choreId weekStartISO clock =
     (if user_type user \<noteq> ''admin'' \<or> user_familyId user \<noteq> familyId
        then ((403, JError ''Admin access required''), db)
      else if falsy personId \<or> falsy choreId \<or> falsy weekStartISO
        then ((400, JError ''personId, choreId, and weekStartISO required''), db)
      else case (personId, choreId, weekStartISO) of
        (Some pid, Some cid, Some week) \<Rightarrow>
          let person = find (\<lambda>p. person_id p = pid \<and> person_family_id p = familyId) (people db);
              chore = find (\<lambda>c. chore_id c = cid \<and> chore_family_id c = familyId) (chores db)
          in if person = None then ((404, JError ''Person not found''), db)
             else if chore = None then ((404, JError ''Chore not found''), db)
             else (case week_loop db familyId pid cid week clock 0 [] of
                     (Inl err, db') \<Rightarrow> ((500, JError ''Internal server error''), db')
                   | (Inr created, db') \<Rightarrow> ((201, JAssignmentsCreated created), db'))
      | _ \<Rightarrow> ((400, JError ''personId, choreId, and weekStartISO required''), db))"

section \<open>Family routes (backend/routes/families.js)\<close>

text \<open>\<open>bcrypt.hash\<close> is the password-hashing primitive of the bcryptjs library: it is a
  parameter. The clock is read several times in the create-family route (\<open>clock 0\<close> for
  the family id, \<open>clock 1\<close> for the admin id, \<open>clock 2\<close> onwards for the chores).\<close>

definition defaultChores :: "(string \<times> string) list" where
  "defaultChores =
     [(''dishes'', ''Dishes''), (''trash'', ''Trash''), (''laundry'', ''Laundry''),
      (''vacuum'', ''Vacuum'')]"

text \<open>\<open>defaultChores.forEach\<close> inside the transaction; \<open>k\<close> counts the clock readings.\<close>

fun insert_default_chores ::
  "database \<Rightarrow> string \<Rightarrow> (nat \<Rightarrow> nat) \<Rightarrow> nat \<Rightarrow> (string \<times> string) list
     \<Rightarrow> sqlite_error + database" where
  "insert_default_chores db familyId clock k [] = Inr db"
| "insert_default_chores db familyId clock k (chore # rest) =
     (case insert_chore db
             \<lparr>chore_id = fst chore @ ''-'' @ toString36 (clock k), chore_family_id = familyId,
              chore_label = snd chore\<rparr> of
        Inl err \<Rightarrow> Inl err
      | Inr db' \<Rightarrow> insert_default_chores db' familyId clock (Suc k) rest)"

text \<open>The body of \<open>db.transaction\<close>. A statement that throws aborts it, and the
  transaction rolls back: the caller keeps the store it had.\<close>

definition create_family_transaction ::
  "database \<Rightarrow> string \<Rightarrow> string \<Rightarrow> string \<Rightarrow> string \<Rightarrow> string \<Rightarrow> (nat \<Rightarrow> nat)
     \<Rightarrow> sqlite_error + database" where
  "create_family_transaction db familyId name adminId adminEmail passwordHash clock =
     (case insert_family db \<lparr>family_id = familyId, family_name = name\<rparr> of
        Inl err \<Rightarrow> Inl err
      | Inr db1 \<Rightarrow>
          (case insert_admin db1
                  \<lparr>admin_id = adminId, admin_family_id = familyId, admin_email = adminEmail,
                   admin_password_hash = passwordHash\<rparr> of
             Inl err \<Rightarrow> Inl err
           | Inr db2 \<Rightarrow> insert_default_chores db2 familyId clock 2 defaultChores))"

definition create_family ::
  "database \<Rightarrow> (string \<Rightarrow> string) \<Rightarrow> string option \<Rightarrow> string option \<Rightarrow> string option
     \<Rightarrow> (nat \<Rightarrow> nat) \<Rightarrow> response \<times> database" where
  "create_family db bcrypt_hash name adminEmail adminPassword clock =
     (if falsy name \<or> falsy adminEmail \<or> falsy adminPassword
        then ((400, JError ''Family name, admin email, and password required''), db)
      else case (name, adminEmail, adminPassword) of
        (Some n, Some e, Some pw) \<Rightarrow>
          let familyId = replace_ws (toLowerCase n) @ ''-'' @ toString36 (clock 0);
              adminId = ''admin-'' @ toString36 (clock 1);
              passwordHash = bcrypt_hash pw
          in (case create_family_transaction db familyId n adminId e passwordHash clock of
                Inl err \<Rightarrow> ((500, JError ''Internal server error''), db)
              | Inr db' \<Rightarrow>
                  ((201, JFamilyCreated
                           \<lparr>user_adminId = Some adminId, user_personId = None,
                            user_familyId = familyId, user_type = ''admin''\<rparr>
                           familyId n),
                   db'))
      | _ \<Rightarrow> ((400, JError ''Family name, admin email, and password required''), db))"

definition get_family :: "database \<Rightarrow> token_claims \<Rightarrow> string \<Rightarrow> response \<times> database" where
  "get_family db user familyId =
     (if user_familyId user \<noteq> familyId then ((403, JError ''Access denied''), db)
      else case find (\<lambda>f. family_id f = familyId) (families db) of
        None \<Rightarrow> ((404, JError ''Family not found''), db)
      | Some family \<Rightarrow>
          ((200, JFamily family
                   (map (\<lambda>a. (admin_id a, admin_email a))
                      (filter (\<lambda>a. admin_family_id a = familyId) (admins db)))
                   (filter (\<lambda>p. person_family_id p = familyId) (people db))
                   (filter (\<lambda>c. chore_family_id c = familyId) (chores db))
                   (filter (\<lambda>a. assignment_family_id a = familyId) (assignments db))),
           db))"

definition add_admin ::
  "database \<Rightarrow> (string \<Rightarrow> string) \<Rightarrow> token_claims \<Rightarrow> string \<Rightarrow> string option \<Rightarrow> string option
     \<Rightarrow> nat \<Rightarrow> response \<times> database" where
  "add_admin db bcrypt_hash user familyId email password now =
     (if user_type user \<noteq> ''admin'' \<or> user_familyId user \<noteq> familyId
        then ((403, JError ''Admin access required''), db)
      else if falsy email \<or> falsy password then ((400, JError ''Email and password required''), db)
      else case (email, password) of
        (Some e, Some pw) \<Rightarrow>
          let adminId = ''admin-'' @ toString36 now;
              passwordHash = bcrypt_hash pw
          in (case insert_admin db
                     \<lparr>admin_id = adminId, admin_family_id = familyId, admin_email = e,
                      admin_password_hash = passwordHash\<rparr> of
                Inl err \<Rightarrow>
                  if err = SQLITE_CONSTRAINT_UNIQUE
                    then ((409, JError ''Admin with this email already exists''), db)
                  else ((500, JError ''Internal server error''), db)
              | Inr db' \<Rightarrow> ((201, JAdminCreated adminId e familyId), db'))
      | _ \<Rightarrow> ((400, JError ''Email and password required''), db))"

definition remove_admin ::
  "database \<Rightarrow> token_claims \<Rightarrow> string \<Rightarrow> string \<Rightarrow> response \<times> database" where
  "remove_admin db user familyId adminId =
     (if user_type user \<noteq> ''admin'' \<or> user_familyId user \<noteq> familyId
        then ((403, JError ''Admin access required''), db)
      else
        let adminCount = length (filter (\<lambda>a. admin_family_id a = familyId) (admins db))
        in if adminCount \<le> 1 then ((400, JError ''Cannot remove the last admin''), db)
           else if user_adminId user = Some adminId
             then ((400, JError ''Cannot remove yourself''), db)
           else ((200, JMessage ''Admin removed successfully''),
                 delete_admin_row db adminId familyId))"

section \<open>Calendar engine (src/App.tsx)\<close>

text \<open>
  A JavaScript \<open>Date\<close> holds a time value: the milliseconds since 1 January 1970 UTC, or
  NaN for an Invalid Date (\<open>None\<close>). Every time value passes through ECMAScript's
  \<open>TimeClip\<close>, which turns a magnitude above 8.64e15 into NaN.
\<close>

type_synonym date = "int option"

definition msPerDay :: int where
  "msPerDay = 86400000"

definition TimeClip :: "int \<Rightarrow> date" where
  "TimeClip t = (if \<bar>t\<bar> > 8640000000000000 then None else Some t)"

definition Day :: "int \<Rightarrow> int" where
  "Day t = t div msPerDay"

definition TimeWithinDay :: "int \<Rightarrow> int" where
  "TimeWithinDay t = t mod msPerDay"

definition WeekDay :: "int \<Rightarrow> int" where
  "WeekDay t = (Day t + 4) mod 7"

definition MakeDate :: "int \<Rightarrow> int \<Rightarrow> int" where
  "MakeDate day time = day * msPerDay + time"

text \<open>
  The host's time zone is a parameter: ECMAScript's \<open>LocalTZA(t, isUTC)\<close>, the offset of
  local time from UTC in milliseconds, once for a UTC time value and once for a local time.
  For a local time that a clock change skips or repeats, \<open>offset_at_local\<close> is the offset
  before the change.
\<close>

record zone =
  offset_at_utc :: "int \<Rightarrow> int"
  offset_at_local :: "int \<Rightarrow> int"

definition LocalTime :: "zone \<Rightarrow> int \<Rightarrow> int" where
  "LocalTime z t = t + offset_at_utc z t"

definition UTC :: "zone \<Rightarrow> int \<Rightarrow> int" where
  "UTC z t = t - offset_at_local z t"

text \<open>\<open>getDay()\<close>: the local day of the week, 0 for Sunday; NaN on an Invalid Date.\<close>

definition getDay :: "zone \<Rightarrow> date \<Rightarrow> int option" where
  "getDay z d = (case d of None \<Rightarrow> None | Some tv \<Rightarrow> Some (WeekDay (LocalTime z tv)))"

text \<open>\<open>d.setDate(d.getDate() + k)\<close>: \<open>setDate\<close> rebuilds the local day from year, month
  and the new day-of-month through \<open>MakeDay\<close>, which is the local day moved by \<open>k\<close>, keeps
  the local time of day, and converts back to UTC.\<close>

definition setDate_getDate_plus :: "zone \<Rightarrow> date \<Rightarrow> int \<Rightarrow> date" where
  "setDate_getDate_plus z d k =
     (case d of
        None \<Rightarrow> None
      | Some tv \<Rightarrow>
          let t = LocalTime z tv
          in TimeClip (UTC z (MakeDate (Day t + k) (TimeWithinDay t))))"

text \<open>\<open>d.setHours(0, 0, 0, 0)\<close>.\<close>

definition setHours_0 :: "zone \<Rightarrow> date \<Rightarrow> date" where
  "setHours_0 z d =
     (case d of
        None \<Rightarrow> None
      | Some tv \<Rightarrow>
          let t = LocalTime z tv
          in TimeClip (UTC z (MakeDate (Day t) 0)))"

definition getWeekStart :: "zone \<Rightarrow> date \<Rightarrow> date" where
  "getWeekStart z date =
     (let d = date
      in case getDay z d of
           None \<Rightarrow> None
         | Some dayOfWeek \<Rightarrow>
             let d = setDate_getDate_plus z d (- dayOfWeek);
                 d = setHours_0 z d
             in d)"

text \<open>
  \<open>new Date(year, month, date)\<close>: local midnight of that day. ECMAScript's \<open>MakeDay\<close>
  carries a month outside 0..11 into the year and counts the day-of-month from the first of
  that month, so that day 0 is the last day of the month before. The constructor reads a
  year from 0 to 99 as 1900 plus that year.
\<close>

definition DayFromYear :: "int \<Rightarrow> int" where
  "DayFromYear y =
     365 * (y - 1970) + (y - 1969) div 4 - (y - 1901) div 100 + (y - 1601) div 400"

definition InLeapYear :: "int \<Rightarrow> bool" where
  "InLeapYear y =
     (if y mod 4 \<noteq> 0 then False
      else if y mod 100 \<noteq> 0 then True
      else if y mod 400 \<noteq> 0 then False
      else True)"

definition DayInYearOfMonth :: "int \<Rightarrow> bool \<Rightarrow> int" where
  "DayInYearOfMonth mn leap =
     (let l = (if leap then 1 else 0) in
      if mn = 0 then 0
      else if mn = 1 then 31
      else if mn = 2 then 59 + l
      else if mn = 3 then 90 + l
      else if mn = 4 then 120 + l
      else if mn = 5 then 151 + l
      else if mn = 6 then 181 + l
      else if mn = 7 then 212 + l
      else if mn = 8 then 243 + l
      else if mn = 9 then 273 + l
      else if mn = 10 then 304 + l
      else 334 + l)"

definition MakeDay :: "int \<Rightarrow> int \<Rightarrow> int \<Rightarrow> int" where
  "MakeDay year month dt =
     (let ym = year + month div 12;
          mn = month mod 12
      in DayFromYear ym + DayInYearOfMonth mn (InLeapYear ym) + dt - 1)"

definition new_Date :: "zone \<Rightarrow> int \<Rightarrow> int \<Rightarrow> int \<Rightarrow> date" where
  "new_Date z year month dt =
     (let yr = (if 0 \<le> year \<and> year \<le> 99 then 1900 + year else year)
      in TimeClip (UTC z (MakeDate (MakeDay yr month dt) 0)))"

text \<open>\<open>a >= b\<close> on two Dates compares their time values; with NaN on either side it is
  false.\<close>

definition date_ge :: "date \<Rightarrow> date \<Rightarrow> bool" where
  "date_ge a b = (case a of None \<Rightarrow> False
                  | Some x \<Rightarrow> (case b of None \<Rightarrow> False | Some y \<Rightarrow> x \<ge> y))"

text \<open>The inner \<open>for\<close> loop of \<open>monthMatrix\<close>: \<open>n\<close> rounds, each pushing a copy of
  \<open>current\<close> and moving \<open>current\<close> one day on.\<close>

fun fill_week :: "zone \<Rightarrow> nat \<Rightarrow> date \<Rightarrow> date list \<Rightarrow> date list \<times> date" where
  "fill_week z 0 current week = (week, current)"
| "fill_week z (Suc n) current week =
     fill_week z n (setDate_getDate_plus z current 1) (week @ [current])"

text \<open>The \<open>while (true)\<close> loop: build a week, push it, stop when its last date has
  reached \<open>endOfMonth\<close>. With an Invalid Date in the comparison the loop never stops:
  the result is then \<open>None\<close>.\<close>

partial_function (option) month_loop ::
  "zone \<Rightarrow> date \<Rightarrow> date \<Rightarrow> date list list \<Rightarrow> date list list option" where
  "month_loop z endOfMonth current weeks =
     (case fill_week z 7 current [] of
        (week, current') \<Rightarrow>
          let weeks' = weeks @ [week]
          in if date_ge (week ! 6) endOfMonth then Some weeks'
             else month_loop z endOfMonth current' weeks')"

declare month_loop.simps [code]

text \<open>\<open>monthMatrix\<close> reads of \<open>currentMonth\<close> only \<open>getFullYear()\<close> and \<open>getMonth()\<close>:
  these are its arguments \<open>year\<close> and \<open>month\<close>.\<close>

definition monthMatrix :: "zone \<Rightarrow> int \<Rightarrow> int \<Rightarrow> date list list option" where
  "monthMatrix z year month =
     (let firstOfMonth = new_Date z year month 1;
          start = getWeekStart z firstOfMonth;
          endOfMonth = new_Date z year (month + 1) 0
      in month_loop z endOfMonth start [])"

section \<open>Sample data and auxiliary notions\<close>

text \<open>A store with one family, its admin, one member and one chore, and three
  principals: the family's admin, its member, and the admin of another family.\<close>

definition smith_db :: database where
  "smith_db =
     \<lparr>families = [\<lparr>family_id = ''smith-1'', family_name = ''Smith Family''\<rparr>],
      admins = [\<lparr>admin_id = ''admin-1'', admin_family_id = ''smith-1'',
                 admin_email = ''admin@x.com'', admin_password_hash = ''hash-of-pw123''\<rparr>],
      people = [\<lparr>person_id = ''jo-1'', person_family_id = ''smith-1'', person_name = ''Jo'',
                 person_email = ''jo@x.com'', person_phone = None, person_color = ''#f97373''\<rparr>],
      chores = [\<lparr>chore_id = ''dishes-1'', chore_family_id = ''smith-1'',
                 chore_label = ''Dishes''\<rparr>],
      assignments = []\<rparr>"

definition smith_admin :: token_claims where
  "smith_admin = \<lparr>user_adminId = Some ''admin-1'', user_personId = None,
                   user_familyId = ''smith-1'', user_type = ''admin''\<rparr>"

definition smith_member :: token_claims where
  "smith_member = \<lparr>user_adminId = None, user_personId = Some ''jo-1'',
                    user_familyId = ''smith-1'', user_type = ''user''\<rparr>"

definition jones_admin :: token_claims where
  "jones_admin = \<lparr>user_adminId = Some ''admin-2'', user_personId = None,
                   user_familyId = ''jones-2'', user_type = ''admin''\<rparr>"

definition two_admins_db :: database where
  "two_admins_db =
     smith_db\<lparr>admins := admins smith_db @
        [\<lparr>admin_id = ''admin-3'', admin_family_id = ''smith-1'',
          admin_email = ''second@x.com'', admin_password_hash = ''hash-of-pw456''\<rparr>]\<rparr>"

text \<open>A required string field that is missing or empty after trimming.\<close>

definition blank :: "string option \<Rightarrow> bool" where
  "blank x = (case x of None \<Rightarrow> True | Some s \<Rightarrow> trim s = [])"

text \<open>The chores a response body contains; an empty store; a stand-in for the hashing
  primitive and a clock that stands still, for concrete runs; the spec's end-to-end
  creation of the Smith family on the empty store.\<close>

definition response_chores :: "json \<Rightarrow> chore_row list" where
  "response_chores body =
     (case body of
        JChore c \<Rightarrow> [c]
      | JChores cs \<Rightarrow> cs
      | JFamily family adms ppl cs asgs \<Rightarrow> cs
      | _ \<Rightarrow> [])"

definition empty_db :: database where
  "empty_db = \<lparr>families = [], admins = [], people = [], chores = [], assignments = []\<rparr>"

definition sample_hash :: "string \<Rightarrow> string" where
  "sample_hash password = ''hash-of-'' @ password"

definition sample_clock :: "nat \<Rightarrow> nat" where
  "sample_clock k = 100"

definition smith_creation :: "response \<times> database" where
  "smith_creation =
     create_family empty_db sample_hash (Some ''Smith Family'') (Some ''admin@x.com'')
       (Some ''pw123'') sample_clock"







text \<open>Two time zones for concrete runs: UTC, and America/Santiago around its clock change
  of 7 September 2025 (day 20338, a Sunday), when local midnight was followed by 01:00 and
  the offset went from four to three hours behind UTC (the zone's other changes are left
  out). A zone with a fixed offset. The local midnight of a day as a Date, and whether it
  is there: representable and not skipped by a clock change.\<close>

definition fixed_zone :: "int \<Rightarrow> zone" where
  "fixed_zone off = \<lparr>offset_at_utc = (\<lambda>t. off), offset_at_local = (\<lambda>t. off)\<rparr>"

definition utc_zone :: zone where
  "utc_zone = fixed_zone 0"

definition santiago_offset_at_utc :: "int \<Rightarrow> int" where
  "santiago_offset_at_utc t =
     (if t < 20338 * msPerDay + 14400000 then - 14400000 else - 10800000)"

definition santiago_offset_at_local :: "int \<Rightarrow> int" where
  "santiago_offset_at_local t =
     (if t < 20338 * msPerDay + 3600000 then - 14400000 else - 10800000)"

definition santiago :: zone where
  "santiago = \<lparr>offset_at_utc = santiago_offset_at_utc,
               offset_at_local = santiago_offset_at_local\<rparr>"

definition midnight :: "zone \<Rightarrow> int \<Rightarrow> date" where
  "midnight z day = TimeClip (UTC z (MakeDate day 0))"

definition midnight_exists :: "zone \<Rightarrow> int \<Rightarrow> bool" where
  "midnight_exists z day =
     (case midnight z day of None \<Rightarrow> False | Some tv \<Rightarrow> LocalTime z tv = MakeDate day 0)"

text \<open>The local time of day of a Date, in milliseconds, and its local day number.\<close>

definition local_time_of_day :: "zone \<Rightarrow> date \<Rightarrow> int option" where
  "local_time_of_day z d =
     (case d of None \<Rightarrow> None | Some tv \<Rightarrow> Some (TimeWithinDay (LocalTime z tv)))"

definition local_day :: "zone \<Rightarrow> date \<Rightarrow> int option" where
  "local_day z d = (case d of None \<Rightarrow> None | Some tv \<Rightarrow> Some (Day (LocalTime z tv)))"

text \<open>Whether the time of day of the time value \<open>tv\<close>, put on the local day \<open>day\<close>, is
  representable and falls on that day (a clock change may move a skipped time forward).\<close>

definition lands_on_day :: "zone \<Rightarrow> int \<Rightarrow> int \<Rightarrow> bool" where
  "lands_on_day z day tv =
     (case TimeClip (UTC z (MakeDate day (TimeWithinDay (LocalTime z tv)))) of
        None \<Rightarrow> False
      | Some tv1 \<Rightarrow> Day (LocalTime z tv1) = day)"






section \<open>Token middleware: the status of a rejected request\<close>

lemma bearer_abc: "bearer_token (Some ''Bearer abc'') = Some ''abc''"
  by (simp add: bearer_token_def)

text \<open>
  Claim C2, as stated: a missing, an invalid and an expired bearer token are all rejected
  with status 401. The middleware answers 401 only when no token can be read from the
  header; a token that \<open>jwt.verify\<close> refuses (bad signature, malformed, expired) is answered
  with 403. At the header \<open>Bearer abc\<close> with an expired token the status is 403, not 401.
\<close>

theorem authenticateToken_expired_is_403:
  "rejected_status (authenticateToken verify_expired (Some ''Bearer abc'')) = Some 403
   \<and> rejected_status (authenticateToken verify_expired (Some ''Bearer abc'')) \<noteq> Some 401"
  by (simp add: authenticateToken_def bearer_abc verify_expired_def rejected_status_def)

text \<open>
  Claim C2, amended: a request whose header yields no token is rejected with 401
  ("Access token required"); a request whose token \<open>jwt.verify\<close> refuses, whatever the
  error (invalid or expired), is rejected with 403 ("Invalid or expired token"); a token
  that verifies passes its payload on to the route.
\<close>

theorem authenticateToken_outcomes:
  "(bearer_token authHeader = None \<longrightarrow>
      authenticateToken jwt_verify authHeader = Rejected (401, JError ''Access token required''))
   \<and> (\<forall>token err. bearer_token authHeader = Some token \<and> jwt_verify token = Inl err \<longrightarrow>
      authenticateToken jwt_verify authHeader = Rejected (403, JError ''Invalid or expired token''))
   \<and> (\<forall>token user. bearer_token authHeader = Some token \<and> jwt_verify token = Inr user \<longrightarrow>
      authenticateToken jwt_verify authHeader = Next user)"
  by (simp add: authenticateToken_def)

theorem authenticateToken_outcomes_witness:
  "authenticateToken verify_expired None = Rejected (401, JError ''Access token required'')
   \<and> authenticateToken verify_expired (Some ''Bearer'')
        = Rejected (401, JError ''Access token required'')
   \<and> authenticateToken verify_expired (Some ''Bearer abc'')
        = Rejected (403, JError ''Invalid or expired token'')
   \<and> authenticateToken verify_invalid (Some ''Bearer abc'')
        = Rejected (403, JError ''Invalid or expired token'')"
  using authenticateToken_outcomes [of None verify_expired]
    authenticateToken_outcomes [of "Some ''Bearer''" verify_expired]
    authenticateToken_outcomes [of "Some ''Bearer abc''" verify_expired]
    authenticateToken_outcomes [of "Some ''Bearer abc''" verify_invalid]
  by (simp add: bearer_token_def verify_expired_def verify_invalid_def)

section \<open>Calendar engine: the start of a week\<close>

lemma msPerDay_pos: "0 < msPerDay"
  by (simp add: msPerDay_def)

lemma Day_MakeDate: "0 \<le> time \<Longrightarrow> time < msPerDay \<Longrightarrow> Day (MakeDate day time) = day"
  using msPerDay_pos by (simp add: Day_def MakeDate_def div_pos_pos_trivial)




lemma TimeWithinDay_range: "0 \<le> TimeWithinDay t" "TimeWithinDay t < msPerDay"
  using msPerDay_pos by (simp_all add: TimeWithinDay_def)










text \<open>In a zone with a fixed offset every representable local midnight is there, and a
  time of day never leaves its day.\<close>

lemma fixed_zone_LocalTime_UTC: "LocalTime (fixed_zone off) (UTC (fixed_zone off) t) = t"
  by (simp add: LocalTime_def UTC_def fixed_zone_def)

lemma fixed_zone_midnight_exists:
  assumes "\<bar>MakeDate day 0 - off\<bar> \<le> 8640000000000000"
  shows "midnight_exists (fixed_zone off) day"
proof -
  have u: "UTC (fixed_zone off) (MakeDate day 0) = MakeDate day 0 - off"
    by (simp add: UTC_def fixed_zone_def)
  have l: "LocalTime (fixed_zone off) (MakeDate day 0 - off) = MakeDate day 0"
    by (simp add: LocalTime_def fixed_zone_def)
  show ?thesis
    using assms by (simp add: midnight_exists_def midnight_def u TimeClip_def l)
qed

lemma fixed_zone_lands_on_day:
  assumes "\<bar>MakeDate day (TimeWithinDay (LocalTime (fixed_zone off) tv)) - off\<bar>
             \<le> 8640000000000000"
  shows "lands_on_day (fixed_zone off) day tv"
proof -
  let ?w = "TimeWithinDay (LocalTime (fixed_zone off) tv)"
  have u: "UTC (fixed_zone off) (MakeDate day ?w) = MakeDate day ?w - off"
    by (simp add: UTC_def fixed_zone_def)
  have l: "LocalTime (fixed_zone off) (MakeDate day ?w - off) = MakeDate day ?w"
    by (simp add: LocalTime_def fixed_zone_def)
  have d: "Day (MakeDate day ?w) = day"
    by (rule Day_MakeDate) (rule TimeWithinDay_range)+
  show ?thesis
    using assms by (simp add: lands_on_day_def u TimeClip_def l d)
qed





section \<open>Authorization guard of the routes\<close>

lemma get_routes_family_mismatch:
  assumes "user_familyId user \<noteq> familyId"
  shows "get_family db user familyId = ((403, JError ''Access denied''), db)"
    and "get_people db user familyId = ((403, JError ''Access denied''), db)"
    and "get_chores db user familyId = ((403, JError ''Access denied''), db)"
    and "get_assignments db user familyId weekStartISO = ((403, JError ''Access denied''), db)"
  using assms
  by (simp_all add: get_family_def get_people_def get_chores_def get_assignments_def)

lemma family_mutations_guard:
  assumes "user_type user \<noteq> ''admin'' \<or> user_familyId user \<noteq> familyId"
  shows "add_admin db bcrypt_hash user familyId email password now
           = ((403, JError ''Admin access required''), db)"
    and "remove_admin db user familyId adminId = ((403, JError ''Admin access required''), db)"
    and "add_person db user familyId name email phone now
           = ((403, JError ''Admin access required''), db)"
    and "add_chore db user familyId label now = ((403, JError ''Admin access required''), db)"
    and "add_assignment db user familyId personId choreId weekStartISO dayIndex now
           = ((403, JError ''Admin access required''), db)"
    and "add_week_assignments db user familyId personId choreId weekStartISO clock
           = ((403, JError ''Admin access required''), db)"
  using assms
  by (simp_all add: add_admin_def remove_admin_def add_person_def add_chore_def
        add_assignment_def add_week_assignments_def)

lemma chore_by_id_guard:
  assumes "find (\<lambda>c. chore_id c = choreId) (chores db) = Some chore"
    and "user_type user \<noteq> ''admin'' \<or> user_familyId user \<noteq> chore_family_id chore"
  shows "update_chore db user choreId label = ((403, JError ''Admin access required''), db)"
    and "delete_chore db user choreId = ((403, JError ''Admin access required''), db)"
  using assms by (simp_all add: update_chore_def delete_chore_def)

lemma person_by_id_guard:
  assumes "find (\<lambda>p. person_id p = personId) (people db) = Some person"
    and "user_type user \<noteq> ''admin'' \<or> user_familyId user \<noteq> person_family_id person"
  shows "update_person db user personId name email phone color
           = ((403, JError ''Admin access required''), db)"
    and "delete_person db user personId = ((403, JError ''Admin access required''), db)"
  using assms by (simp_all add: update_person_def delete_person_def)

lemma assignment_by_id_guard:
  assumes "find (\<lambda>a. assignment_id a = assignmentId) (assignments db) = Some assignment"
    and "user_type user \<noteq> ''admin'' \<or> user_familyId user \<noteq> assignment_family_id assignment"
  shows "delete_assignment db user assignmentId = ((403, JError ''Admin access required''), db)"
  using assms by (simp add: delete_assignment_def)

lemma by_id_not_found:
  shows "find (\<lambda>c. chore_id c = choreId) (chores db) = None \<Longrightarrow>
           update_chore db user choreId label = ((404, JError ''Chore not found''), db)"
    and "find (\<lambda>c. chore_id c = choreId) (chores db) = None \<Longrightarrow>
           delete_chore db user choreId = ((404, JError ''Chore not found''), db)"
    and "find (\<lambda>p. person_id p = personId) (people db) = None \<Longrightarrow>
           update_person db user personId name email phone color
             = ((404, JError ''Person not found''), db)"
    and "find (\<lambda>p. person_id p = personId) (people db) = None \<Longrightarrow>
           delete_person db user personId = ((404, JError ''Person not found''), db)"
    and "find (\<lambda>a. assignment_id a = assignmentId) (assignments db) = None \<Longrightarrow>
           delete_assignment db user assignmentId = ((404, JError ''Assignment not found''), db)"
  by (simp_all add: update_chore_def delete_chore_def update_person_def delete_person_def
        delete_assignment_def)

text \<open>
  Claim C1, as stated: every mutating operation returns 403 unless the token's type is
  admin. On the by-id routes the record is looked up first: a member (type \<open>user\<close>) who
  deletes a chore id that does not exist is answered 404, not 403.
\<close>

theorem delete_chore_member_unknown_id_is_404:
  "fst (fst (delete_chore smith_db smith_member ''no-such-chore'')) = 404
   \<and> fst (fst (delete_chore smith_db smith_member ''no-such-chore'')) \<noteq> 403
   \<and> user_type smith_member \<noteq> ''admin''"
  by (simp add: delete_chore_def smith_db_def smith_member_def)

text \<open>
  Claim C1, amended: with a valid token whose \<open>familyId\<close> differs from the family of the
  request path, every family route returns 403 and leaves the store unchanged, and so does
  every by-id route when the addressed record exists and belongs to another family. Every
  mutating operation (admins, people, chores, assignments) also returns 403 with the store
  unchanged when the token's type is not \<open>admin\<close>; on the by-id routes this holds when the
  addressed record exists.
\<close>

theorem family_and_role_guard:
  "(user_familyId user \<noteq> familyId \<longrightarrow>
      get_family db user familyId = ((403, JError ''Access denied''), db)
      \<and> get_people db user familyId = ((403, JError ''Access denied''), db)
      \<and> get_chores db user familyId = ((403, JError ''Access denied''), db)
      \<and> get_assignments db user familyId week = ((403, JError ''Access denied''), db))
   \<and> (user_type user \<noteq> ''admin'' \<or> user_familyId user \<noteq> familyId \<longrightarrow>
      add_admin db bcrypt_hash user familyId email password now
        = ((403, JError ''Admin access required''), db)
      \<and> remove_admin db user familyId adminId = ((403, JError ''Admin access required''), db)
      \<and> add_person db user familyId name email phone now
        = ((403, JError ''Admin access required''), db)
      \<and> add_chore db user familyId label now = ((403, JError ''Admin access required''), db)
      \<and> add_assignment db user familyId personId choreId weekStartISO dayIndex now
        = ((403, JError ''Admin access required''), db)
      \<and> add_week_assignments db user familyId personId choreId weekStartISO clock
        = ((403, JError ''Admin access required''), db))
   \<and> (\<forall>chore. find (\<lambda>c. chore_id c = cid) (chores db) = Some chore
        \<and> (user_type user \<noteq> ''admin'' \<or> user_familyId user \<noteq> chore_family_id chore) \<longrightarrow>
      update_chore db user cid label = ((403, JError ''Admin access required''), db)
      \<and> delete_chore db user cid = ((403, JError ''Admin access required''), db))
   \<and> (\<forall>person. find (\<lambda>p. person_id p = pid) (people db) = Some person
        \<and> (user_type user \<noteq> ''admin'' \<or> user_familyId user \<noteq> person_family_id person) \<longrightarrow>
      update_person db user pid name email phone color
        = ((403, JError ''Admin access required''), db)
      \<and> delete_person db user pid = ((403, JError ''Admin access required''), db))
   \<and> (\<forall>assignment. find (\<lambda>a. assignment_id a = aid) (assignments db) = Some assignment
        \<and> (user_type user \<noteq> ''admin''
            \<or> user_familyId user \<noteq> assignment_family_id assignment) \<longrightarrow>
      delete_assignment db user aid = ((403, JError ''Admin access required''), db))"
proof (intro conjI allI impI)
  assume a: "user_familyId user \<noteq> familyId"
  show "get_family db user familyId = ((403, JError ''Access denied''), db)"
    by (rule get_routes_family_mismatch [OF a])
  show "get_people db user familyId = ((403, JError ''Access denied''), db)"
    by (rule get_routes_family_mismatch [OF a])
  show "get_chores db user familyId = ((403, JError ''Access denied''), db)"
    by (rule get_routes_family_mismatch [OF a])
  show "get_assignments db user familyId week = ((403, JError ''Access denied''), db)"
    by (rule get_routes_family_mismatch [OF a])
next
  assume a: "user_type user \<noteq> ''admin'' \<or> user_familyId user \<noteq> familyId"
  show "add_admin db bcrypt_hash user familyId email password now
          = ((403, JError ''Admin access required''), db)"
    by (rule family_mutations_guard [OF a])
  show "remove_admin db user familyId adminId = ((403, JError ''Admin access required''), db)"
    by (rule family_mutations_guard [OF a])
  show "add_person db user familyId name email phone now
          = ((403, JError ''Admin access required''), db)"
    by (rule family_mutations_guard [OF a])
  show "add_chore db user familyId label now = ((403, JError ''Admin access required''), db)"
    by (rule family_mutations_guard [OF a])
  show "add_assignment db user familyId personId choreId weekStartISO dayIndex now
          = ((403, JError ''Admin access required''), db)"
    by (rule family_mutations_guard [OF a])
  show "add_week_assignments db user familyId personId choreId weekStartISO clock
          = ((403, JError ''Admin access required''), db)"
    by (rule family_mutations_guard [OF a])
next
  fix chore
  assume a: "find (\<lambda>c. chore_id c = cid) (chores db) = Some chore
        \<and> (user_type user \<noteq> ''admin'' \<or> user_familyId user \<noteq> chore_family_id chore)"
  show "update_chore db user cid label = ((403, JError ''Admin access required''), db)"
    by (rule chore_by_id_guard [OF conjunct1 [OF a] conjunct2 [OF a]])
  show "delete_chore db user cid = ((403, JError ''Admin access required''), db)"
    by (rule chore_by_id_guard [OF conjunct1 [OF a] conjunct2 [OF a]])
next
  fix person
  assume a: "find (\<lambda>p. person_id p = pid) (people db) = Some person
        \<and> (user_type user \<noteq> ''admin'' \<or> user_familyId user \<noteq> person_family_id person)"
  show "update_person db user pid name email phone color
          = ((403, JError ''Admin access required''), db)"
    by (rule person_by_id_guard [OF conjunct1 [OF a] conjunct2 [OF a]])
  show "delete_person db user pid = ((403, JError ''Admin access required''), db)"
    by (rule person_by_id_guard [OF conjunct1 [OF a] conjunct2 [OF a]])
next
  fix assignment
  assume a: "find (\<lambda>a. assignment_id a = aid) (assignments db) = Some assignment
        \<and> (user_type user \<noteq> ''admin''
            \<or> user_familyId user \<noteq> assignment_family_id assignment)"
  show "delete_assignment db user aid = ((403, JError ''Admin access required''), db)"
    by (rule assignment_by_id_guard [OF conjunct1 [OF a] conjunct2 [OF a]])
qed

theorem family_and_role_guard_witness:
  "get_family smith_db jones_admin ''smith-1'' = ((403, JError ''Access denied''), smith_db)
   \<and> add_chore smith_db smith_member ''smith-1'' (Some ''Dust'') 100
       = ((403, JError ''Admin access required''), smith_db)
   \<and> add_assignment smith_db jones_admin ''smith-1'' (Some ''jo-1'') (Some ''dishes-1'')
         (Some ''2026-02-15'') (Some 1) 100
       = ((403, JError ''Admin access required''), smith_db)
   \<and> delete_chore smith_db smith_member ''dishes-1''
       = ((403, JError ''Admin access required''), smith_db)
   \<and> delete_person smith_db jones_admin ''jo-1''
       = ((403, JError ''Admin access required''), smith_db)"
  using family_and_role_guard [where user = jones_admin and familyId = "''smith-1''"
        and db = smith_db and personId = "Some ''jo-1''" and choreId = "Some ''dishes-1''"
        and weekStartISO = "Some ''2026-02-15''" and dayIndex = "Some 1" and now = 100
        and pid = "''jo-1''"]
    family_and_role_guard [where user = smith_member and familyId = "''smith-1''"
        and db = smith_db and label = "Some ''Dust''" and now = 100
        and cid = "''dishes-1''"]
  by (simp add: smith_db_def smith_member_def jones_admin_def)

section \<open>By-id routes: existence is checked before authorization\<close>

text \<open>
  Claim C10: on the by-id routes (PUT and DELETE of a chore, PUT and DELETE of a person,
  DELETE of an assignment) the record is looked up first. An id that no record carries is
  answered 404 whoever asks, whatever the family and type of the token; an id of a record
  that belongs to a family other than the token's is answered 403. Both leave the store
  unchanged, and the two answers differ, so a principal of another family can tell an
  existing id from an unused one.
\<close>

theorem by_id_existence_before_authorization:
  "(find (\<lambda>c. chore_id c = cid) (chores db) = None \<longrightarrow>
      update_chore db user cid label = ((404, JError ''Chore not found''), db)
      \<and> delete_chore db user cid = ((404, JError ''Chore not found''), db))
   \<and> (\<forall>chore. find (\<lambda>c. chore_id c = cid) (chores db) = Some chore
        \<and> user_familyId user \<noteq> chore_family_id chore \<longrightarrow>
      update_chore db user cid label = ((403, JError ''Admin access required''), db)
      \<and> delete_chore db user cid = ((403, JError ''Admin access required''), db))
   \<and> (find (\<lambda>p. person_id p = pid) (people db) = None \<longrightarrow>
      update_person db user pid name email phone color = ((404, JError ''Person not found''), db)
      \<and> delete_person db user pid = ((404, JError ''Person not found''), db))
   \<and> (\<forall>person. find (\<lambda>p. person_id p = pid) (people db) = Some person
        \<and> user_familyId user \<noteq> person_family_id person \<longrightarrow>
      update_person db user pid name email phone color
        = ((403, JError ''Admin access required''), db)
      \<and> delete_person db user pid = ((403, JError ''Admin access required''), db))
   \<and> (find (\<lambda>a. assignment_id a = aid) (assignments db) = None \<longrightarrow>
      delete_assignment db user aid = ((404, JError ''Assignment not found''), db))
   \<and> (\<forall>assignment. find (\<lambda>a. assignment_id a = aid) (assignments db) = Some assignment
        \<and> user_familyId user \<noteq> assignment_family_id assignment \<longrightarrow>
      delete_assignment db user aid = ((403, JError ''Admin access required''), db))"
proof (intro conjI allI impI)
  assume a: "find (\<lambda>c. chore_id c = cid) (chores db) = None"
  show "update_chore db user cid label = ((404, JError ''Chore not found''), db)"
    by (rule by_id_not_found(1) [OF a])
  show "delete_chore db user cid = ((404, JError ''Chore not found''), db)"
    by (rule by_id_not_found(2) [OF a])
next
  fix chore
  assume a: "find (\<lambda>c. chore_id c = cid) (chores db) = Some chore
        \<and> user_familyId user \<noteq> chore_family_id chore"
  then have b: "user_type user \<noteq> ''admin'' \<or> user_familyId user \<noteq> chore_family_id chore"
    by simp
  show "update_chore db user cid label = ((403, JError ''Admin access required''), db)"
    by (rule chore_by_id_guard [OF conjunct1 [OF a] b])
  show "delete_chore db user cid = ((403, JError ''Admin access required''), db)"
    by (rule chore_by_id_guard [OF conjunct1 [OF a] b])
next
  assume a: "find (\<lambda>p. person_id p = pid) (people db) = None"
  show "update_person db user pid name email phone color
          = ((404, JError ''Person not found''), db)"
    by (rule by_id_not_found(3) [OF a])
  show "delete_person db user pid = ((404, JError ''Person not found''), db)"
    by (rule by_id_not_found(4) [OF a])
next
  fix person
  assume a: "find (\<lambda>p. person_id p = pid) (people db) = Some person
        \<and> user_familyId user \<noteq> person_family_id person"
  then have b: "user_type user \<noteq> ''admin'' \<or> user_familyId user \<noteq> person_family_id person"
    by simp
  show "update_person db user pid name email phone color
          = ((403, JError ''Admin access required''), db)"
    by (rule person_by_id_guard [OF conjunct1 [OF a] b])
  show "delete_person db user pid = ((403, JError ''Admin access required''), db)"
    by (rule person_by_id_guard [OF conjunct1 [OF a] b])
next
  assume a: "find (\<lambda>a. assignment_id a = aid) (assignments db) = None"
  show "delete_assignment db user aid = ((404, JError ''Assignment not found''), db)"
    by (rule by_id_not_found(5) [OF a])
next
  fix assignment
  assume a: "find (\<lambda>a. assignment_id a = aid) (assignments db) = Some assignment
        \<and> user_familyId user \<noteq> assignment_family_id assignment"
  then have b: "user_type user \<noteq> ''admin''
        \<or> user_familyId user \<noteq> assignment_family_id assignment"
    by simp
  show "delete_assignment db user aid = ((403, JError ''Admin access required''), db)"
    by (rule assignment_by_id_guard [OF conjunct1 [OF a] b])
qed

theorem by_id_existence_before_authorization_witness:
  "delete_chore smith_db jones_admin ''dishes-1''
     = ((403, JError ''Admin access required''), smith_db)
   \<and> delete_chore smith_db jones_admin ''dishes-2'' = ((404, JError ''Chore not found''), smith_db)
   \<and> update_person smith_db jones_admin ''jo-1'' (Some ''Joe'') (Some ''joe@x.com'') None None
       = ((403, JError ''Admin access required''), smith_db)
   \<and> update_person smith_db jones_admin ''jo-2'' (Some ''Joe'') (Some ''joe@x.com'') None None
       = ((404, JError ''Person not found''), smith_db)
   \<and> delete_assignment smith_db smith_member ''a-1''
       = ((404, JError ''Assignment not found''), smith_db)"
  using by_id_existence_before_authorization [where db = smith_db and user = jones_admin
      and cid = "''dishes-1''" and pid = "''jo-1''" and name = "Some ''Joe''"
      and email = "Some ''joe@x.com''" and phone = None and color = None]
    by_id_existence_before_authorization [where db = smith_db and user = jones_admin
      and cid = "''dishes-2''" and pid = "''jo-2''" and name = "Some ''Joe''"
      and email = "Some ''joe@x.com''" and phone = None and color = None]
    by_id_existence_before_authorization [where db = smith_db and user = smith_member
      and aid = "''a-1''"]
  by (simp add: smith_db_def jones_admin_def)

section \<open>Removing an admin\<close>

text \<open>
  Claim C5: for a removal request by an admin of the same family, a family with exactly
  one admin gets the 400 answer "Cannot remove the last admin"; a request whose target is
  the acting admin's own id gets a 400 answer, "Cannot remove yourself" whenever the family
  has more than one admin (with one admin or none the last-admin answer, tested first,
  is the one given); in both cases the store is unchanged, so no admin is deleted.
\<close>

theorem remove_admin_last_or_self:
  assumes "user_type user = ''admin''" and "user_familyId user = familyId"
  shows "(length (filter (\<lambda>a. admin_family_id a = familyId) (admins db)) = 1 \<longrightarrow>
           remove_admin db user familyId adminId
             = ((400, JError ''Cannot remove the last admin''), db))
       \<and> (user_adminId user = Some adminId \<longrightarrow>
           fst (fst (remove_admin db user familyId adminId)) = 400
           \<and> snd (remove_admin db user familyId adminId) = db
           \<and> (1 < length (filter (\<lambda>a. admin_family_id a = familyId) (admins db)) \<longrightarrow>
                remove_admin db user familyId adminId
                  = ((400, JError ''Cannot remove yourself''), db)))"
  using assms by (simp add: remove_admin_def Let_def)

theorem remove_admin_last_or_self_witness:
  "remove_admin smith_db smith_admin ''smith-1'' ''admin-1''
     = ((400, JError ''Cannot remove the last admin''), smith_db)
   \<and> remove_admin two_admins_db smith_admin ''smith-1'' ''admin-1''
       = ((400, JError ''Cannot remove yourself''), two_admins_db)"
  using remove_admin_last_or_self [of smith_admin "''smith-1''" smith_db "''admin-1''"]
    remove_admin_last_or_self [of smith_admin "''smith-1''" two_admins_db "''admin-1''"]
  by (simp add: smith_db_def smith_admin_def two_admins_db_def)

section \<open>Validation of required fields\<close>

lemma trim_Nil: "trim [] = []"
  by (simp add: trim_def)

lemma add_chore_blank_label:
  assumes "user_type user = ''admin''" and "user_familyId user = familyId" and "blank label"
  shows "add_chore db user familyId label now = ((400, JError ''Chore label required''), db)"
  using assms by (auto simp add: add_chore_def blank_def trim_Nil split: option.splits)

lemma update_chore_blank_label:
  assumes "find (\<lambda>c. chore_id c = cid) (chores db) = Some chore"
    and "user_type user = ''admin''" and "user_familyId user = chore_family_id chore"
    and "blank label"
  shows "update_chore db user cid label = ((400, JError ''Chore label required''), db)"
  using assms by (auto simp add: update_chore_def blank_def trim_Nil split: option.splits)

lemma add_person_missing_field:
  assumes "user_type user = ''admin''" and "user_familyId user = familyId"
    and "falsy name \<or> falsy email"
  shows "add_person db user familyId name email phone now
           = ((400, JError ''Name and email required''), db)"
  using assms by (simp add: add_person_def)

lemma update_person_missing_field:
  assumes "find (\<lambda>p. person_id p = pid) (people db) = Some person"
    and "user_type user = ''admin''" and "user_familyId user = person_family_id person"
    and "falsy name \<or> falsy email"
  shows "update_person db user pid name email phone color
           = ((400, JError ''Name and email required''), db)"
  using assms by (simp add: update_person_def)

text \<open>
  Claim C9, as stated: a person name that is empty after trimming is rejected with 400 and
  no record is created. The people routes test \<open>!name || !email\<close> without trimming: for
  the family's admin, the name of three spaces passes, the answer is 201 and the person is
  stored.
\<close>

theorem add_person_blank_name_is_created:
  "blank (Some ''   '')
   \<and> fst (fst (add_person smith_db smith_admin ''smith-1'' (Some ''   '') (Some ''new@x.com'')
                  None 100)) = 201
   \<and> map person_name (people (snd (add_person smith_db smith_admin ''smith-1'' (Some ''   '')
                  (Some ''new@x.com'') None 100))) = [''Jo'', ''   '']"
  by code_simp

text \<open>
  Claim C9, amended: for an admin of the family, creating or updating a chore with a label
  that is missing or empty after trimming is answered 400 and leaves the store unchanged;
  creating or updating a person with a name or an email that is missing or the empty
  string is answered 400 and leaves the store unchanged.
\<close>

theorem required_fields_validated:
  assumes "user_type user = ''admin''"
  shows "(user_familyId user = familyId \<and> blank label \<longrightarrow>
           add_chore db user familyId label now = ((400, JError ''Chore label required''), db))
       \<and> (\<forall>chore. find (\<lambda>c. chore_id c = cid) (chores db) = Some chore
             \<and> user_familyId user = chore_family_id chore \<and> blank label \<longrightarrow>
           update_chore db user cid label = ((400, JError ''Chore label required''), db))
       \<and> (user_familyId user = familyId \<and> (falsy name \<or> falsy email) \<longrightarrow>
           add_person db user familyId name email phone now
             = ((400, JError ''Name and email required''), db))
       \<and> (\<forall>person. find (\<lambda>p. person_id p = pid) (people db) = Some person
             \<and> user_familyId user = person_family_id person \<and> (falsy name \<or> falsy email) \<longrightarrow>
           update_person db user pid name email phone color
             = ((400, JError ''Name and email required''), db))"
  using assms
  by (auto simp add: add_chore_blank_label update_chore_blank_label add_person_missing_field
        update_person_missing_field)

theorem required_fields_validated_witness:
  "add_chore smith_db smith_admin ''smith-1'' (Some ''   '') 100
     = ((400, JError ''Chore label required''), smith_db)
   \<and> update_chore smith_db smith_admin ''dishes-1'' None
       = ((400, JError ''Chore label required''), smith_db)
   \<and> add_person smith_db smith_admin ''smith-1'' (Some '''') (Some ''new@x.com'') None 100
       = ((400, JError ''Name and email required''), smith_db)
   \<and> update_person smith_db smith_admin ''jo-1'' (Some ''Jo'') None None None
       = ((400, JError ''Name and email required''), smith_db)"
  using required_fields_validated [where user = smith_admin and familyId = "''smith-1''"
      and db = smith_db and label = "Some ''   ''" and now = 100 and name = "Some ''''"
      and email = "Some ''new@x.com''" and phone = None]
    required_fields_validated [where user = smith_admin and db = smith_db and label = None
      and cid = "''dishes-1''" and pid = "''jo-1''" and name = "Some ''Jo''" and email = None
      and phone = None and color = None]
  by (simp add: smith_db_def smith_admin_def blank_def falsy_def trim_def is_space_def)

section \<open>Creating a family\<close>

lemma insert_family_Inr:
  "insert_family db r = Inr db' \<Longrightarrow> db' = db\<lparr>families := families db @ [r]\<rparr>"
  by (auto simp add: insert_family_def split: if_splits)

lemma insert_admin_Inr:
  "insert_admin db r = Inr db' \<Longrightarrow> db' = db\<lparr>admins := admins db @ [r]\<rparr>"
  by (auto simp add: insert_admin_def split: if_splits)

lemma insert_chore_Inr:
  "insert_chore db r = Inr db' \<Longrightarrow> db' = db\<lparr>chores := chores db @ [r]\<rparr>"
  by (auto simp add: insert_chore_def split: if_splits)

lemma insert_default_chores_Inr:
  "insert_default_chores db familyId clock k cs = Inr db' \<Longrightarrow>
     db' = db\<lparr>chores := chores db @
             map (\<lambda>(i, c). \<lparr>chore_id = fst c @ ''-'' @ toString36 (clock i),
                              chore_family_id = familyId, chore_label = snd c\<rparr>)
               (enumerate k cs)\<rparr>"
proof (induction cs arbitrary: db k)
  case Nil
  then show ?case by simp
next
  case (Cons c cs)
  let ?r = "\<lparr>chore_id = fst c @ ''-'' @ toString36 (clock k), chore_family_id = familyId,
              chore_label = snd c\<rparr>"
  from Cons.prems obtain db1 where a: "insert_chore db ?r = Inr db1"
    and b: "insert_default_chores db1 familyId clock (Suc k) cs = Inr db'"
    by (auto split: sum.splits)
  from insert_chore_Inr [OF a] have c: "db1 = db\<lparr>chores := chores db @ [?r]\<rparr>" .
  from Cons.IH [OF b] show ?case
    by (simp add: c)
qed

lemma create_family_transaction_Inr:
  assumes "create_family_transaction db familyId name adminId adminEmail passwordHash clock
             = Inr db'"
  shows "db' = db\<lparr>families := families db @ [\<lparr>family_id = familyId, family_name = name\<rparr>],
                   admins := admins db @
                     [\<lparr>admin_id = adminId, admin_family_id = familyId,
                       admin_email = adminEmail, admin_password_hash = passwordHash\<rparr>],
                   chores := chores db @
                     [\<lparr>chore_id = ''dishes-'' @ toString36 (clock 2),
                       chore_family_id = familyId, chore_label = ''Dishes''\<rparr>,
                      \<lparr>chore_id = ''trash-'' @ toString36 (clock 3),
                       chore_family_id = familyId, chore_label = ''Trash''\<rparr>,
                      \<lparr>chore_id = ''laundry-'' @ toString36 (clock 4),
                       chore_family_id = familyId, chore_label = ''Laundry''\<rparr>,
                      \<lparr>chore_id = ''vacuum-'' @ toString36 (clock 5),
                       chore_family_id = familyId, chore_label = ''Vacuum''\<rparr>]\<rparr>"
proof -
  from assms obtain db1 db2 where
    a: "insert_family db \<lparr>family_id = familyId, family_name = name\<rparr> = Inr db1"
    and b: "insert_admin db1 \<lparr>admin_id = adminId, admin_family_id = familyId,
               admin_email = adminEmail, admin_password_hash = passwordHash\<rparr> = Inr db2"
    and c: "insert_default_chores db2 familyId clock 2 defaultChores = Inr db'"
    by (auto simp add: create_family_transaction_def split: sum.splits)
  have e: "enumerate 2 defaultChores
             = [(2, (''dishes'', ''Dishes'')), (3, (''trash'', ''Trash'')),
                (4, (''laundry'', ''Laundry'')), (5, (''vacuum'', ''Vacuum''))]"
    by (simp add: defaultChores_def)
  show ?thesis
    using insert_family_Inr [OF a] insert_admin_Inr [OF b] insert_default_chores_Inr [OF c]
    by (simp add: e)
qed

text \<open>
  Claim C8, as stated: the 201 response of a successful creation contains the four default
  chores. Creating "Smith Family" with admin@x.com / pw123 on the empty store succeeds and
  stores the four chores, but the response body is \<open>{token, family: {id, name}}\<close>: it
  contains no chore.
\<close>

theorem create_family_response_has_no_chores:
  "fst (fst smith_creation) = 201
   \<and> response_chores (snd (fst smith_creation)) = []
   \<and> map chore_label (chores (snd smith_creation)) = [''Dishes'', ''Trash'', ''Laundry'', ''Vacuum'']"
  by code_simp

text \<open>
  Claim C8, amended: a POST /families with non-empty name, adminEmail and adminPassword
  either answers 500 and leaves the store as it was (a statement of the transaction
  failed and it rolled back), or answers 201 with the session token and the family's id
  and name, and the store has gained exactly the family, one admin with the hashed
  password, and the four default chores Dishes, Trash, Laundry, Vacuum of that family.
\<close>

theorem create_family_all_or_nothing:
  assumes "n \<noteq> []" and "e \<noteq> []" and "pw \<noteq> []"
  shows "create_family db bcrypt_hash (Some n) (Some e) (Some pw) clock
           = ((500, JError ''Internal server error''), db)
       \<or> create_family db bcrypt_hash (Some n) (Some e) (Some pw) clock
           = ((201, JFamilyCreated
                      \<lparr>user_adminId = Some (''admin-'' @ toString36 (clock 1)),
                       user_personId = None,
                       user_familyId = replace_ws (toLowerCase n) @ ''-'' @ toString36 (clock 0),
                       user_type = ''admin''\<rparr>
                      (replace_ws (toLowerCase n) @ ''-'' @ toString36 (clock 0)) n),
              db\<lparr>families := families db @
                     [\<lparr>family_id = replace_ws (toLowerCase n) @ ''-'' @ toString36 (clock 0),
                       family_name = n\<rparr>],
                 admins := admins db @
                     [\<lparr>admin_id = ''admin-'' @ toString36 (clock 1),
                       admin_family_id = replace_ws (toLowerCase n) @ ''-'' @ toString36 (clock 0),
                       admin_email = e, admin_password_hash = bcrypt_hash pw\<rparr>],
                 chores := chores db @
                     [\<lparr>chore_id = ''dishes-'' @ toString36 (clock 2),
                       chore_family_id = replace_ws (toLowerCase n) @ ''-'' @ toString36 (clock 0),
                       chore_label = ''Dishes''\<rparr>,
                      \<lparr>chore_id = ''trash-'' @ toString36 (clock 3),
                       chore_family_id = replace_ws (toLowerCase n) @ ''-'' @ toString36 (clock 0),
                       chore_label = ''Trash''\<rparr>,
                      \<lparr>chore_id = ''laundry-'' @ toString36 (clock 4),
                       chore_family_id = replace_ws (toLowerCase n) @ ''-'' @ toString36 (clock 0),
                       chore_label = ''Laundry''\<rparr>,
                      \<lparr>chore_id = ''vacuum-'' @ toString36 (clock 5),
                       chore_family_id = replace_ws (toLowerCase n) @ ''-'' @ toString36 (clock 0),
                       chore_label = ''Vacuum''\<rparr>]\<rparr>)"
proof (cases "create_family_transaction db
                 (replace_ws (toLowerCase n) @ ''-'' @ toString36 (clock 0)) n
                 (''admin-'' @ toString36 (clock 1)) e (bcrypt_hash pw) clock")
  case (Inl err)
  then show ?thesis
    using assms by (simp add: create_family_def falsy_def Let_def)
next
  case (Inr db')
  from create_family_transaction_Inr [OF Inr] Inr show ?thesis
    using assms by (simp add: create_family_def falsy_def Let_def)
qed

theorem create_family_all_or_nothing_witness:
  "fst (fst smith_creation) = 201
   \<and> families (snd smith_creation)
       = [\<lparr>family_id = ''smith-family-2s'', family_name = ''Smith Family''\<rparr>]
   \<and> map admin_email (admins (snd smith_creation)) = [''admin@x.com'']
   \<and> map chore_id (chores (snd smith_creation))
       = [''dishes-2s'', ''trash-2s'', ''laundry-2s'', ''vacuum-2s'']"
proof -
  have t: "toString36 100 = ''2s''"
    by code_simp
  have l: "replace_ws (toLowerCase ''Smith Family'') = ''smith-family''"
    by code_simp
  have ok: "fst (fst smith_creation) = 201"
    by code_simp
  from create_family_all_or_nothing [of "''Smith Family''" "''admin@x.com''" "''pw123''"
      empty_db sample_hash sample_clock] ok
  show ?thesis
    by (auto simp add: smith_creation_def t l sample_clock_def empty_db_def)
qed

section \<open>Creating the same assignment twice\<close>











section \<open>Assigning a chore to the whole week\<close>














section \<open>Calendar engine: the month matrix\<close>





















lemma month_loop_needs_end:
  assumes "month_loop z endOfMonth current weeks = Some result"
  shows "endOfMonth \<noteq> None"
proof (rule month_loop.raw_induct [where P = "\<lambda>z e c w r. e \<noteq> None", OF _ assms])
  fix loop :: "zone \<Rightarrow> date \<Rightarrow> date \<Rightarrow> date list list \<Rightarrow> date list list option"
    and z' e c w r
  assume ih: "\<And>z e c w y. loop z e c w = Some y \<Longrightarrow> e \<noteq> None"
    and step: "(case fill_week z' 7 c [] of
                  (week, current') \<Rightarrow>
                    let weeks' = w @ [week]
                    in if date_ge (week ! 6) e then Some weeks'
                       else loop z' e current' weeks') = Some r"
  show "e \<noteq> None"
  proof (cases "fill_week z' 7 c []")
    case (Pair week current')
    show ?thesis
    proof (cases "date_ge (week ! 6) e")
      case True
      then show ?thesis
        by (auto simp add: date_ge_def split: option.splits)
    next
      case False
      with step Pair have "loop z' e current' (w @ [week]) = Some r"
        by (simp add: Let_def)
      then show ?thesis
        by (rule ih)
    qed
  qed
qed



text \<open>September 2025 in America/Santiago: the midnight of Sunday the 7th does not exist, so
  \<open>setDate\<close> lands on 01:00, and every later entry of the matrix stays on 01:00.\<close>

lemma monthMatrix_santiago_september_2025:
  "monthMatrix santiago 2025 8
     = Some [[Some 1756612800000, Some 1756699200000, Some 1756785600000, Some 1756872000000,
              Some 1756958400000, Some 1757044800000, Some 1757131200000],
             [Some 1757217600000, Some 1757304000000, Some 1757390400000, Some 1757476800000,
              Some 1757563200000, Some 1757649600000, Some 1757736000000],
             [Some 1757822400000, Some 1757908800000, Some 1757995200000, Some 1758081600000,
              Some 1758168000000, Some 1758254400000, Some 1758340800000],
             [Some 1758427200000, Some 1758513600000, Some 1758600000000, Some 1758686400000,
              Some 1758772800000, Some 1758859200000, Some 1758945600000],
             [Some 1759032000000, Some 1759118400000, Some 1759204800000, Some 1759291200000,
              Some 1759377600000, Some 1759464000000, Some 1759550400000]]"
  "local_day santiago (Some 1757131200000) = Some 20337"
  "local_time_of_day santiago (Some 1757131200000) = Some 0"
  "local_day santiago (Some 1757217600000) = Some 20338"
  "local_time_of_day santiago (Some 1757217600000) = Some 3600000"
  "local_day santiago (Some 1759550400000) = Some 20365"
  "local_time_of_day santiago (Some 1759550400000) = Some 3600000"
  by code_simp+

text \<open>September 275760 in UTC, the last month with a representable day: its last day is
  not representable, \<open>endOfMonth\<close> is an Invalid Date, no comparison with it holds, and
  the loop never stops.\<close>

lemma monthMatrix_last_month_never_returns:
  "new_Date utc_zone 275760 8 1 = Some 8639998963200000"
  "new_Date utc_zone 275760 9 0 = None"
  "monthMatrix utc_zone 275760 8 = None"
proof -
  show "new_Date utc_zone 275760 8 1 = Some 8639998963200000"
    by code_simp
  show e: "new_Date utc_zone 275760 9 0 = None"
    by code_simp
  show "monthMatrix utc_zone 275760 8 = None"
  proof (cases "monthMatrix utc_zone 275760 8")
    case None
    then show ?thesis .
  next
    case (Some result)
    then have "month_loop utc_zone None
                 (getWeekStart utc_zone (new_Date utc_zone 275760 8 1)) [] = Some result"
      by (simp add: monthMatrix_def Let_def e)
    from month_loop_needs_end [OF this] show ?thesis
      by simp
  qed
qed





end
